theory Spec2Isabelle
  imports Complex_Main
begin

section \<open>HR resume analysis RAG agent: data model\<close>

text \<open>
  The Python sources (\<^verbatim>\<open>services/document_service.py\<close>, \<^verbatim>\<open>services/chat_service.py\<close>,
  \<^verbatim>\<open>app.py\<close>) are a thin orchestration layer over external collaborators: the file
  system, the LangChain loaders and splitter, the Pinecone client, the embedding provider
  and the chat model. Each Python function becomes a HOL function on an explicit program
  state; every call that leaves the process goes through a field of the record
  \<open>services\<close> and is appended to the trace \<open>calls\<close>. A Python \<^verbatim>\<open>str\<close> is a
  \<open>string\<close>, one \<open>char\<close> per character of the Python string.
\<close>

type_synonym metadata = "(string \<times> string) list"

record document =
  page_content :: string
  metadata :: metadata

text \<open>A \<^verbatim>\<open>PineconeVectorStore\<close> object: a handle on the index of the given name.\<close>

datatype vectorstore = PineconeVectorStore string

text \<open>
  Exceptions. \<open>ValueError\<close> is raised by the code itself, \<open>KeyError\<close> by
  \<^verbatim>\<open>os.environ[...]\<close> on a missing variable, and \<open>Raised e\<close> is an exception \<open>e\<close>
  thrown by an external collaborator, which the code never wraps or converts.
\<close>

datatype 'e exc = ValueError string | KeyError string | Raised 'e

datatype level = INFO | WARNING | ERROR

datatype loader = TextLoader | PyPDFLoader | Docx2txtLoader

text \<open>The outbound calls that the trace records, in the order in which they are made.\<close>

datatype call =
    Glob string
  | LoaderLoad loader string
  | ListIndexes
  | CreateIndex string nat string string string
  | DescribeIndex string
  | DeleteIndex string
  | Sleep nat
  | IndexDeleteAll string
  | FromDocuments "document list" string
  | OpenVectorStore string
  | SimilaritySearch vectorstore string nat
  | LLMInvoke string

record 'w prog_state =
  world :: 'w
  calls :: "call list"
  logs :: "(level \<times> string) list"
  flashes :: "(string \<times> string) list"

text \<open>
  The methods of a \<^verbatim>\<open>pinecone.Pinecone\<close> client that the code uses. The client is
  built by the field \<open>Pinecone\<close> of \<open>services\<close> from the API key, and building it may
  raise (the constructor refuses an empty key).
\<close>

record ('w, 'e) pinecone =
  list_indexes :: "'w \<Rightarrow> 'w \<times> ('e + string list)"
  create_index :: "'w \<Rightarrow> string \<Rightarrow> nat \<Rightarrow> string \<Rightarrow> string \<Rightarrow> string \<Rightarrow> 'w \<times> ('e + unit)"
  describe_index :: "'w \<Rightarrow> string \<Rightarrow> 'w \<times> ('e + nat)"
  delete_index :: "'w \<Rightarrow> string \<Rightarrow> 'w \<times> ('e + unit)"
  index_delete_all :: "'w \<Rightarrow> string \<Rightarrow> 'w \<times> ('e + unit)"

text \<open>
  The external collaborators, over an arbitrary state \<open>'w\<close> of the outside world and an
  arbitrary type \<open>'e\<close> of their exceptions. A call that may change the outside world (or
  whose answer may differ from one call to the next) takes and returns the world.
\<close>

record ('w, 'e) services =
  os_environ :: "string \<Rightarrow> string option"
  os_path_isfile :: "'w \<Rightarrow> string \<Rightarrow> bool"
  os_path_isdir :: "'w \<Rightarrow> string \<Rightarrow> bool"
  os_path_exists :: "'w \<Rightarrow> string \<Rightarrow> bool"
  glob_glob :: "'w \<Rightarrow> string \<Rightarrow> string list"
  loader_load :: "'w \<Rightarrow> loader \<Rightarrow> string \<Rightarrow> 'e + document list"
  split_documents :: "nat \<Rightarrow> nat \<Rightarrow> document list \<Rightarrow> document list"
  Pinecone :: "string \<Rightarrow> 'e + ('w, 'e) pinecone"
  from_documents :: "'w \<Rightarrow> document list \<Rightarrow> string \<Rightarrow> 'w \<times> ('e + vectorstore)"
  open_vector_store :: "'w \<Rightarrow> string \<Rightarrow> 'w \<times> ('e + vectorstore)"
  similarity_search :: "'w \<Rightarrow> vectorstore \<Rightarrow> string \<Rightarrow> nat \<Rightarrow> 'w \<times> ('e + document list)"
  llm_invoke :: "'w \<Rightarrow> string \<Rightarrow> 'w \<times> ('e + string)"
  markdown_markdown :: "string \<Rightarrow> string"
  str_raised :: "'e \<Rightarrow> string"

subsection \<open>Helpers shared by the three modules\<close>

definition record_call :: "call \<Rightarrow> 'w prog_state \<Rightarrow> 'w prog_state" where
  "record_call c st = st\<lparr>calls := calls st @ [c]\<rparr>"

definition logger :: "level \<Rightarrow> string \<Rightarrow> 'w prog_state \<Rightarrow> 'w prog_state" where
  "logger lv msg st = st\<lparr>logs := logs st @ [(lv, msg)]\<rparr>"

definition flash :: "string \<Rightarrow> string \<Rightarrow> 'w prog_state \<Rightarrow> 'w prog_state" where
  "flash msg category st = st\<lparr>flashes := flashes st @ [(msg, category)]\<rparr>"

text \<open>
  An external call made from state \<open>st\<close>: the call is traced, the world is replaced by
  the one the collaborator returns, and its exception, if any, becomes \<open>Raised\<close>.
\<close>

definition external :: "call \<Rightarrow> ('w \<Rightarrow> 'w \<times> ('e + 'a)) \<Rightarrow> 'w prog_state \<Rightarrow> 'w prog_state \<times> ('e exc + 'a)" where
  "external c f st =
     (case f (world st) of
        (w', Inl e) \<Rightarrow> (record_call c (st\<lparr>world := w'\<rparr>), Inl (Raised e))
      | (w', Inr v) \<Rightarrow> (record_call c (st\<lparr>world := w'\<rparr>), Inr v))"

text \<open>\<^verbatim>\<open>os.environ[name]\<close>.\<close>

definition environ_get :: "('w, 'e) services \<Rightarrow> string \<Rightarrow> 'e exc + string" where
  "environ_get S name = (case os_environ S name of None \<Rightarrow> Inl (KeyError name) | Some v \<Rightarrow> Inr v)"

text \<open>
  \<^verbatim>\<open>str(e)\<close>: the message of a \<open>ValueError\<close>, the \<^verbatim>\<open>repr\<close> of the key of a
  \<open>KeyError\<close> (the key between single quotes; the keys used here contain no quote or
  escape), and what the collaborator's exception prints.
\<close>

definition str_exc :: "('w, 'e) services \<Rightarrow> 'e exc \<Rightarrow> string" where
  "str_exc S e =
     (case e of
        ValueError msg \<Rightarrow> msg
      | KeyError k \<Rightarrow> [CHR 0x27] @ k @ [CHR 0x27]
      | Raised x \<Rightarrow> str_raised S x)"

text \<open>\<^verbatim>\<open>str(n)\<close> for a non-negative integer.\<close>

definition digit_char :: "nat \<Rightarrow> char" where
  "digit_char d = char_of (48 + d)"

fun str_nat :: "nat \<Rightarrow> string" where
  "str_nat n = (if n < 10 then [digit_char n] else str_nat (n div 10) @ [digit_char (n mod 10)])"

declare str_nat.simps [simp del]

text \<open>\<^verbatim>\<open>sep.join(parts)\<close>: the separator is written before every part but the first.\<close>

definition str_join :: "string \<Rightarrow> string list \<Rightarrow> string" where
  "str_join sep parts =
     (case parts of [] \<Rightarrow> [] | p # ps \<Rightarrow> foldl (\<lambda>acc s. acc @ sep @ s) p ps)"

section \<open>services/chat\_service.py\<close>

definition NL :: string where
  "NL = [CHR 0x0A]"

text \<open>\<^verbatim>\<open>HR_PROMPT\<close> filled with a context and a question.\<close>

definition HR_PROMPT :: "string \<Rightarrow> string \<Rightarrow> string" where
  "HR_PROMPT context question =
     ''You are an expert HR analyst. Analyze the following question using the provided context.'' @ NL
     @ NL
     @ ''Context: '' @ context @ NL
     @ NL
     @ ''Question: '' @ question @ NL
     @ NL
     @ ''Format your response in markdown with:'' @ NL
     @ ''## Summary'' @ NL
     @ ''[Executive summary]'' @ NL
     @ NL
     @ ''## Key Insights'' @ NL
     @ ''- [Key finding 1]'' @ NL
     @ ''- [Key finding 2]'' @ NL
     @ NL
     @ ''## Recommendations'' @ NL
     @ ''1. [Recommendation 1]'' @ NL
     @ ''2. [Recommendation 2]'' @ NL
     @ NL
     @ ''## Skills Assessment'' @ NL
     @ ''[Skills alignment if relevant]'' @ NL
     @ NL
     @ ''Focus on HR factors like skills, experience, qualifications, and cultural fit.'' @ NL"

text \<open>\<^verbatim>\<open>_format_docs\<close>.\<close>

definition format_docs :: "document list \<Rightarrow> string" where
  "format_docs docs = str_join (NL @ NL) (map page_content docs)"

text \<open>
  \<^verbatim>\<open>vectorstore.as_retriever(search_kwargs={"k": 5})\<close> followed by one invocation of
  the retriever (\<^verbatim>\<open>retriever.invoke\<close> inside the chain, or
  \<^verbatim>\<open>retriever.get_relevant_documents\<close>): one similarity search with \<open>k = 5\<close>.
\<close>

definition retriever_invoke ::
  "('w, 'e) services \<Rightarrow> 'w prog_state \<Rightarrow> vectorstore \<Rightarrow> string \<Rightarrow> 'w prog_state \<times> ('e exc + document list)" where
  "retriever_invoke S st vs question =
     external (SimilaritySearch vs question 5) (\<lambda>w. similarity_search S w vs question 5) st"

text \<open>The \<^verbatim>\<open>llm\<close> step of the chain; the result is the \<^verbatim>\<open>content\<close> of the message.\<close>

definition llm_call ::
  "('w, 'e) services \<Rightarrow> 'w prog_state \<Rightarrow> string \<Rightarrow> 'w prog_state \<times> ('e exc + string)" where
  "llm_call S st prompt = external (LLMInvoke prompt) (\<lambda>w. llm_invoke S w prompt) st"

record source =
  content :: string
  source_metadata :: metadata

record chat_response =
  answer :: string
  sources :: "source list"

text \<open>One element of the \<^verbatim>\<open>sources\<close> list comprehension.\<close>

definition source_entry :: "document \<Rightarrow> source" where
  "source_entry doc =
     \<lparr>content = (if length (page_content doc) > 200 then take 200 (page_content doc) @ ''...''
                 else page_content doc),
      source_metadata = metadata doc\<rparr>"

definition process_chat_question ::
  "('w, 'e) services \<Rightarrow> 'w prog_state \<Rightarrow> string \<Rightarrow> vectorstore option
     \<Rightarrow> 'w prog_state \<times> ('e exc + chat_response)" where
  "process_chat_question S st question vectorstore =
     (case vectorstore of
        None \<Rightarrow> (st, Inl (ValueError ''Vector store not available''))
      | Some vs \<Rightarrow>
          (case retriever_invoke S st vs question of
             (st1, Inl e) \<Rightarrow> (st1, Inl e)
           | (st1, Inr docs) \<Rightarrow>
               (case llm_call S st1 (HR_PROMPT (format_docs docs) question) of
                  (st2, Inl e) \<Rightarrow> (st2, Inl e)
                | (st2, Inr markdown_answer) \<Rightarrow>
                    (let html_answer = markdown_markdown S markdown_answer
                     in case retriever_invoke S st2 vs question of
                          (st3, Inl e) \<Rightarrow> (st3, Inl e)
                        | (st3, Inr source_docs) \<Rightarrow>
                            (st3, Inr \<lparr>answer = html_answer,
                                       sources = map source_entry source_docs\<rparr>)))))"

section \<open>services/document\_service.py\<close>

subsection \<open>File names\<close>

text \<open>\<^verbatim>\<open>p.rfind(c)\<close>: the index of the last occurrence of \<open>c\<close>, or \<open>-1\<close>.\<close>

fun rfind_from :: "string \<Rightarrow> char \<Rightarrow> nat \<Rightarrow> int \<Rightarrow> int" where
  "rfind_from [] c i found = found"
| "rfind_from (x # xs) c i found = rfind_from xs c (Suc i) (if x = c then int i else found)"

definition rfind :: "string \<Rightarrow> char \<Rightarrow> int" where
  "rfind p c = rfind_from p c 0 (- 1)"

text \<open>
  \<^verbatim>\<open>os.path.splitext\<close> of \<^verbatim>\<open>posixpath\<close>: the extension starts at the last dot of the
  last path component, unless only dots precede it in that component.
\<close>

definition splitext :: "string \<Rightarrow> string \<times> string" where
  "splitext p =
     (let sepIndex = rfind p (CHR ''/'');
          dotIndex = rfind p (CHR ''.'')
      in if dotIndex > sepIndex
            \<and> list_ex (\<lambda>i. p ! i \<noteq> CHR ''.'') [nat (sepIndex + 1) ..< nat dotIndex]
         then (take (nat dotIndex) p, drop (nat dotIndex) p)
         else (p, []))"

text \<open>
  \<^verbatim>\<open>str.lower\<close> on the characters below code point 256: the letters \<open>A\<close> to \<open>Z\<close> and
  the capital letters of Latin-1 (code points 192 to 222, the multiplication sign 215
  apart) move up by 32; every other character is left as it is.
\<close>

definition lower_char :: "char \<Rightarrow> char" where
  "lower_char c =
     (let n = (of_char c :: nat)
      in if (65 \<le> n \<and> n \<le> 90) \<or> (192 \<le> n \<and> n \<le> 214) \<or> (216 \<le> n \<and> n \<le> 222)
         then char_of (n + 32) else c)"

definition lower :: "string \<Rightarrow> string" where
  "lower s = map lower_char s"

text \<open>\<^verbatim>\<open>os.path.join(a, *p)\<close> of \<^verbatim>\<open>posixpath\<close>.\<close>

fun os_path_join :: "string \<Rightarrow> string list \<Rightarrow> string" where
  "os_path_join path [] = path"
| "os_path_join path (b # bs) =
     os_path_join
       (if b \<noteq> [] \<and> hd b = CHR ''/'' then b
        else if path = [] \<or> last path = CHR ''/'' then path @ b
        else path @ ''/'' @ b) bs"

subsection \<open>Loading documents\<close>

text \<open>The dictionary \<^verbatim>\<open>loaders\<close> of \<^verbatim>\<open>_load_single_file\<close>.\<close>

definition loaders :: "(string \<times> loader) list" where
  "loaders = [(''.txt'', TextLoader), (''.pdf'', PyPDFLoader), (''.docx'', Docx2txtLoader)]"

text \<open>The body of the \<^verbatim>\<open>try\<close> block of \<^verbatim>\<open>_load_single_file\<close>.\<close>

definition load_single_file_try ::
  "('w, 'e) services \<Rightarrow> 'w prog_state \<Rightarrow> string \<Rightarrow> 'w prog_state \<times> ('e exc + document list)" where
  "load_single_file_try S st file_path =
     (let ext = lower (snd (splitext file_path))
      in case map_of loaders ext of
           None \<Rightarrow> (logger WARNING (''Unsupported file type: '' @ ext) st, Inr [])
         | Some ld \<Rightarrow>
             (case external (LoaderLoad ld file_path) (\<lambda>w. (w, loader_load S w ld file_path)) st of
                (st1, Inl e) \<Rightarrow> (st1, Inl e)
              | (st1, Inr documents) \<Rightarrow>
                  (logger INFO (''Loaded '' @ str_nat (length documents) @ '' documents from '' @ file_path) st1,
                   Inr documents)))"

text \<open>\<^verbatim>\<open>_load_single_file\<close>: the \<^verbatim>\<open>try\<close> block under its \<^verbatim>\<open>except Exception\<close>.\<close>

definition load_single_file ::
  "('w, 'e) services \<Rightarrow> 'w prog_state \<Rightarrow> string \<Rightarrow> 'w prog_state \<times> ('e exc + document list)" where
  "load_single_file S st file_path =
     (case load_single_file_try S st file_path of
        (st1, Inl e) \<Rightarrow>
          (logger ERROR (''Error loading '' @ file_path @ '': '' @ str_exc S e) st1, Inr [])
      | (st1, Inr documents) \<Rightarrow> (st1, Inr documents))"

text \<open>The inner loop \<^verbatim>\<open>for file in files: documents.extend(_load_single_file(file))\<close>.\<close>

fun load_files ::
  "('w, 'e) services \<Rightarrow> 'w prog_state \<Rightarrow> document list \<Rightarrow> string list
     \<Rightarrow> 'w prog_state \<times> ('e exc + document list)" where
  "load_files S st documents [] = (st, Inr documents)"
| "load_files S st documents (file # files) =
     (case load_single_file S st file of
        (st1, Inl e) \<Rightarrow> (st1, Inl e)
      | (st1, Inr loaded) \<Rightarrow> load_files S st1 (documents @ loaded) files)"

text \<open>The outer loop \<^verbatim>\<open>for ext in ['*.txt', '*.pdf', '*.docx']\<close>.\<close>

fun load_patterns ::
  "('w, 'e) services \<Rightarrow> 'w prog_state \<Rightarrow> string \<Rightarrow> document list \<Rightarrow> string list
     \<Rightarrow> 'w prog_state \<times> ('e exc + document list)" where
  "load_patterns S st path documents [] = (st, Inr documents)"
| "load_patterns S st path documents (ext # exts) =
     (let pattern = os_path_join path [''**'', ext];
          files = glob_glob S (world st) pattern
      in case load_files S (record_call (Glob pattern) st) documents files of
           (st1, Inl e) \<Rightarrow> (st1, Inl e)
         | (st1, Inr documents1) \<Rightarrow> load_patterns S st1 path documents1 exts)"

definition load_documents ::
  "('w, 'e) services \<Rightarrow> 'w prog_state \<Rightarrow> string \<Rightarrow> 'w prog_state \<times> ('e exc + document list)" where
  "load_documents S st path =
     (if os_path_isfile S (world st) path
        then (case load_single_file S st path of
                (st1, Inl e) \<Rightarrow> (st1, Inl e)
              | (st1, Inr loaded) \<Rightarrow> (st1, Inr ([] @ loaded)))
      else if os_path_isdir S (world st) path
        then load_patterns S st path [] [''*.txt'', ''*.pdf'', ''*.docx'']
      else (st, Inr []))"

subsection \<open>The index\<close>

text \<open>\<^verbatim>\<open>_ensure_index_exists\<close>.\<close>

definition ensure_index_exists ::
  "('w, 'e) pinecone \<Rightarrow> 'w prog_state \<Rightarrow> string \<Rightarrow> 'w prog_state \<times> ('e exc + unit)" where
  "ensure_index_exists pc st index_name =
     (case external ListIndexes (list_indexes pc) st of
        (st1, Inl e) \<Rightarrow> (st1, Inl e)
      | (st1, Inr existing_indexes) \<Rightarrow>
          if index_name \<notin> set existing_indexes then
            (case external (CreateIndex index_name 1536 ''cosine'' ''aws'' ''us-east-1'')
                    (\<lambda>w. create_index pc w index_name 1536 ''cosine'' ''aws'' ''us-east-1'') st1 of
               (st2, Inl e) \<Rightarrow> (st2, Inl e)
             | (st2, Inr u) \<Rightarrow> (record_call (Sleep 10) st2, Inr ()))
          else
            (case external (DescribeIndex index_name) (\<lambda>w. describe_index pc w index_name) st1 of
               (st2, Inl e) \<Rightarrow> (st2, Inl e)
             | (st2, Inr index_dimension) \<Rightarrow>
                 if index_dimension \<noteq> 1536 then
                   (case external (DeleteIndex index_name) (\<lambda>w. delete_index pc w index_name) st2 of
                      (st3, Inl e) \<Rightarrow> (st3, Inl e)
                    | (st3, Inr u) \<Rightarrow>
                        (case external (CreateIndex index_name 1536 ''cosine'' ''aws'' ''us-east-1'')
                                (\<lambda>w. create_index pc w index_name 1536 ''cosine'' ''aws'' ''us-east-1'')
                                (record_call (Sleep 5) st3) of
                           (st4, Inl e) \<Rightarrow> (st4, Inl e)
                         | (st4, Inr u') \<Rightarrow> (record_call (Sleep 10) st4, Inr ())))
                 else (st2, Inr ())))"

text \<open>The body of the \<^verbatim>\<open>try\<close> block of \<^verbatim>\<open>create_vector_store\<close>.\<close>

definition create_vector_store_try ::
  "('w, 'e) services \<Rightarrow> 'w prog_state \<Rightarrow> document list \<Rightarrow> 'w prog_state \<times> ('e exc + vectorstore)" where
  "create_vector_store_try S st documents =
     (let chunks = split_documents S 1000 200 documents
      in case environ_get S ''PINECONE_API_KEY'' of
           Inl e \<Rightarrow> (st, Inl e)
         | Inr api_key \<Rightarrow>
             (case Pinecone S api_key of
                Inl x \<Rightarrow> (st, Inl (Raised x))
              | Inr pc \<Rightarrow>
                  (case environ_get S ''INDEX_NAME'' of
                     Inl e \<Rightarrow> (st, Inl e)
                   | Inr index_name \<Rightarrow>
                       (case ensure_index_exists pc st index_name of
                          (st1, Inl e) \<Rightarrow> (st1, Inl e)
                        | (st1, Inr u) \<Rightarrow>
                            (case external (FromDocuments chunks index_name)
                                    (\<lambda>w. from_documents S w chunks index_name) st1 of
                               (st2, Inl e) \<Rightarrow> (st2, Inl e)
                             | (st2, Inr vs) \<Rightarrow>
                                 (logger INFO (''Created vector store with '' @ str_nat (length chunks) @ '' chunks'') st2,
                                  Inr vs))))))"

text \<open>\<^verbatim>\<open>create_vector_store\<close>; \<open>None\<close> is Python's \<^verbatim>\<open>None\<close>.\<close>

definition create_vector_store ::
  "('w, 'e) services \<Rightarrow> 'w prog_state \<Rightarrow> document list \<Rightarrow> 'w prog_state \<times> vectorstore option" where
  "create_vector_store S st documents =
     (if documents = [] then (st, None)
      else case create_vector_store_try S st documents of
             (st1, Inl e) \<Rightarrow> (logger ERROR (''Error creating vector store: '' @ str_exc S e) st1, None)
           | (st1, Inr vs) \<Rightarrow> (st1, Some vs))"

text \<open>\<^verbatim>\<open>get_vector_store\<close>.\<close>

definition get_vector_store ::
  "('w, 'e) services \<Rightarrow> 'w prog_state \<Rightarrow> 'w prog_state \<times> vectorstore option" where
  "get_vector_store S st =
     (case (case environ_get S ''INDEX_NAME'' of
              Inl e \<Rightarrow> (st, Inl e)
            | Inr index_name \<Rightarrow>
                external (OpenVectorStore index_name) (\<lambda>w. open_vector_store S w index_name) st) of
        (st1, Inl e) \<Rightarrow> (logger ERROR (''Error getting vector store: '' @ str_exc S e) st1, None)
      | (st1, Inr vs) \<Rightarrow> (st1, Some vs))"

text \<open>\<^verbatim>\<open>delete_all_documents\<close>.\<close>

definition delete_all_documents ::
  "('w, 'e) services \<Rightarrow> 'w prog_state \<Rightarrow> 'w prog_state \<times> bool" where
  "delete_all_documents S st =
     (case (case environ_get S ''PINECONE_API_KEY'' of
              Inl e \<Rightarrow> (st, Inl e)
            | Inr api_key \<Rightarrow>
                (case Pinecone S api_key of
                   Inl x \<Rightarrow> (st, Inl (Raised x))
                 | Inr pc \<Rightarrow>
                     (case environ_get S ''INDEX_NAME'' of
                        Inl e \<Rightarrow> (st, Inl e)
                      | Inr index_name \<Rightarrow>
                          external (IndexDeleteAll index_name)
                            (\<lambda>w. index_delete_all pc w index_name) st))) of
        (st1, Inl e) \<Rightarrow> (logger ERROR (''Error deleting documents: '' @ str_exc S e) st1, False)
      | (st1, Inr u) \<Rightarrow> (st1, True))"

section \<open>app.py\<close>

datatype body = ErrorBody string | ChatBody chat_response

text \<open>
  The route \<^verbatim>\<open>/chat\<close>, from the test \<^verbatim>\<open>if not question\<close> on: \<open>question\<close> is the
  value of \<^verbatim>\<open>request.json.get('question', '').strip()\<close>. The result is the status and
  the JSON body of the response.
\<close>

definition chat ::
  "('w, 'e) services \<Rightarrow> 'w prog_state \<Rightarrow> string \<Rightarrow> 'w prog_state \<times> nat \<times> body" where
  "chat S st question =
     (if question = [] then (st, 400, ErrorBody ''No question provided'')
      else case get_vector_store S st of
             (st1, None) \<Rightarrow>
               (st1, 400, ErrorBody ''Vector store not available. Please update first.'')
           | (st1, Some vs) \<Rightarrow>
               (case process_chat_question S st1 question (Some vs) of
                  (st2, Inl e) \<Rightarrow>
                    (logger ERROR (''Chat error: '' @ str_exc S e) st2,
                     500, ErrorBody (''Error: '' @ str_exc S e))
                | (st2, Inr response) \<Rightarrow> (st2, 200, ChatBody response)))"

text \<open>
  The last statement of the \<^verbatim>\<open>try\<close> block of \<^verbatim>\<open>update_vectorstore\<close>: what is flashed
  for the value that \<^verbatim>\<open>create_vector_store\<close> returned.
\<close>

definition flash_vector_store_result ::
  "'w prog_state \<Rightarrow> vectorstore option \<Rightarrow> document list \<Rightarrow> 'w prog_state" where
  "flash_vector_store_result st vectorstore documents =
     (case vectorstore of
        Some vs \<Rightarrow>
          flash (''Successfully updated with '' @ str_nat (length documents) @ '' documents.'') ''success'' st
      | None \<Rightarrow> flash ''Error creating vector store.'' ''error'' st)"

text \<open>
  The route \<^verbatim>\<open>/update_vectorstore\<close>, from the test of \<^verbatim>\<open>file_path\<close> on. Every path
  ends in \<^verbatim>\<open>redirect(url_for('index'))\<close>, so the result is the state alone.
\<close>

definition update_vectorstore ::
  "('w, 'e) services \<Rightarrow> 'w prog_state \<Rightarrow> string \<Rightarrow> 'w prog_state" where
  "update_vectorstore S st file_path =
     (if file_path = [] \<or> \<not> os_path_exists S (world st) file_path
      then flash (''Invalid path: '' @ file_path) ''error'' st
      else case delete_all_documents S st of
             (st1, cleared) \<Rightarrow>
               (let st2 = (if cleared then flash ''Existing documents cleared.'' ''info'' st1 else st1)
                in case load_documents S st2 file_path of
                     (st3, Inl e) \<Rightarrow>
                       logger ERROR (''Update error: '' @ str_exc S e)
                         (flash (''Error: '' @ str_exc S e) ''error'' st3)
                   | (st3, Inr documents) \<Rightarrow>
                       if documents = [] then flash ''No documents found.'' ''warning'' st3
                       else (case create_vector_store S st3 documents of
                               (st4, vectorstore) \<Rightarrow>
                                 flash_vector_store_result st4 vectorstore documents)))"

section \<open>The external services, modelled\<close>

subsection \<open>The Vector Index\<close>

text \<open>
  The Vector Index is an external service and no code of it is part of the sources. The
  definitions of this subsection are a sequential in-memory model of the operations that
  the code calls, written from sections 4.3, 4.4 and 6 of the specification. An exception
  of the service is its message.
\<close>

type_synonym vector = "real list"

record index_record =
  record_vector :: vector
  record_document :: document

record index_info =
  dimension :: nat
  metric :: string
  index_records :: "index_record list"

type_synonym vector_index = "(string \<times> index_info) list"

text \<open>Modelled from the spec: the Vector Index operation that lists the existing indexes.\<close>

definition ref_list_indexes :: "vector_index \<Rightarrow> vector_index \<times> (string + string list)" where
  "ref_list_indexes w = (w, Inr (map fst w))"

text \<open>
  Modelled from the spec: the Vector Index operation \<^verbatim>\<open>create(name, dimension, metric)\<close>;
  the new index holds no record, and creating a name that exists is refused.
\<close>

definition ref_create_index ::
  "vector_index \<Rightarrow> string \<Rightarrow> nat \<Rightarrow> string \<Rightarrow> string \<Rightarrow> string \<Rightarrow> vector_index \<times> (string + unit)" where
  "ref_create_index w name n met cloud region =
     (if name \<in> set (map fst w) then (w, Inl ''ALREADY_EXISTS'')
      else (w @ [(name, \<lparr>dimension = n, metric = met, index_records = []\<rparr>)], Inr ()))"

text \<open>Modelled from the spec: the Vector Index operation \<^verbatim>\<open>describe(name) -> dimension\<close>.\<close>

definition ref_describe_index :: "vector_index \<Rightarrow> string \<Rightarrow> vector_index \<times> (string + nat)" where
  "ref_describe_index w name =
     (case map_of w name of
        None \<Rightarrow> (w, Inl ''NOT_FOUND'')
      | Some info \<Rightarrow> (w, Inr (dimension info)))"

text \<open>
  Modelled from the spec: the Vector Index operation \<^verbatim>\<open>delete_index(name)\<close>; the index
  and all its records are gone.
\<close>

definition ref_delete_index :: "vector_index \<Rightarrow> string \<Rightarrow> vector_index \<times> (string + unit)" where
  "ref_delete_index w name =
     (if name \<in> set (map fst w) then (filter (\<lambda>entry. fst entry \<noteq> name) w, Inr ())
      else (w, Inl ''NOT_FOUND''))"

text \<open>Modelled from the spec: the Vector Index operation \<^verbatim>\<open>delete_all(name)\<close>.\<close>

definition ref_delete_all :: "vector_index \<Rightarrow> string \<Rightarrow> vector_index \<times> (string + unit)" where
  "ref_delete_all w name =
     (if name \<in> set (map fst w)
      then (map (\<lambda>entry. if fst entry = name then (fst entry, (snd entry)\<lparr>index_records := []\<rparr>) else entry) w,
            Inr ())
      else (w, Inl ''NOT_FOUND''))"

definition reference_pinecone :: "(vector_index, string) pinecone" where
  "reference_pinecone =
     \<lparr>list_indexes = ref_list_indexes,
      create_index = ref_create_index,
      describe_index = ref_describe_index,
      delete_index = ref_delete_index,
      index_delete_all = ref_delete_all\<rparr>"

text \<open>
  Modelled from the spec: the ranking of the Vector Index's native similarity search.
  A scored chunk is put before the first chunk of the ranking whose score is lower.
\<close>

fun insert_ranked :: "document \<times> real \<Rightarrow> (document \<times> real) list \<Rightarrow> (document \<times> real) list" where
  "insert_ranked p [] = [p]"
| "insert_ranked p (q # qs) = (if snd p \<le> snd q then q # insert_ranked p qs else p # q # qs)"

fun ranking :: "(document \<times> real) list \<Rightarrow> (document \<times> real) list" where
  "ranking [] = []"
| "ranking (p # ps) = insert_ranked p (ranking ps)"

text \<open>
  Modelled from the spec: the Vector Index operation \<^verbatim>\<open>query(vector, k)\<close>, the ranked
  list of the \<open>k\<close> records most similar to the vector, each with its score. The
  similarity \<open>sim\<close> (cosine in the deployment, computed by the service in floating
  point) is a parameter.
\<close>

definition index_query ::
  "(vector \<Rightarrow> vector \<Rightarrow> real) \<Rightarrow> index_info \<Rightarrow> vector \<Rightarrow> nat \<Rightarrow> (document \<times> real) list" where
  "index_query sim info v k =
     take k (ranking (map (\<lambda>r. (record_document r, sim v (record_vector r))) (index_records info)))"

text \<open>
  Modelled from the spec: the Retriever's search on an open index. The question is
  embedded by the Embedding Provider \<open>embedder\<close>, the index is queried, and the (chunk,
  score) pairs come back in the order of the index.
\<close>

definition ref_similarity_search_with_score ::
  "(string \<Rightarrow> string + vector) \<Rightarrow> (vector \<Rightarrow> vector \<Rightarrow> real) \<Rightarrow> vector_index \<Rightarrow> vectorstore \<Rightarrow> string \<Rightarrow> nat
     \<Rightarrow> vector_index \<times> (string + (document \<times> real) list)" where
  "ref_similarity_search_with_score embedder sim w vs query k =
     (case vs of
        PineconeVectorStore name \<Rightarrow>
          (case embedder query of
             Inl e \<Rightarrow> (w, Inl e)
           | Inr v \<Rightarrow>
               (case map_of w name of
                  None \<Rightarrow> (w, Inl ''NOT_FOUND'')
                | Some info \<Rightarrow> (w, Inr (index_query sim info v k)))))"

text \<open>
  Modelled from the spec: \<^verbatim>\<open>similarity_search\<close> of the vector store, which the retriever
  of \<^verbatim>\<open>process_chat_question\<close> calls: the chunks of the scored search, without the
  scores.
\<close>

definition ref_similarity_search ::
  "(string \<Rightarrow> string + vector) \<Rightarrow> (vector \<Rightarrow> vector \<Rightarrow> real) \<Rightarrow> vector_index \<Rightarrow> vectorstore \<Rightarrow> string \<Rightarrow> nat
     \<Rightarrow> vector_index \<times> (string + document list)" where
  "ref_similarity_search embedder sim w vs query k =
     (case ref_similarity_search_with_score embedder sim w vs query k of
        (w', Inl e) \<Rightarrow> (w', Inl e)
      | (w', Inr pairs) \<Rightarrow> (w', Inr (map fst pairs)))"

subsection \<open>The wording of the specification\<close>

text \<open>
  The context block as the specification words it: the texts in their order, adjacent
  texts separated by a blank line.
\<close>

fun blank_line_separated :: "string list \<Rightarrow> string" where
  "blank_line_separated [] = []"
| "blank_line_separated [t] = t"
| "blank_line_separated (t # u # ts) = t @ NL @ NL @ blank_line_separated (u # ts)"

text \<open>
  What one file adds to a load: the Documents its reader yields, and nothing when the
  extension is unsupported or the reader fails.
\<close>

definition file_documents :: "('w, 'e) services \<Rightarrow> 'w \<Rightarrow> string \<Rightarrow> document list" where
  "file_documents S w file_path =
     (case map_of loaders (lower (snd (splitext file_path))) of
        None \<Rightarrow> []
      | Some ld \<Rightarrow> (case loader_load S w ld file_path of Inl e \<Rightarrow> [] | Inr documents \<Rightarrow> documents))"

text \<open>The number of calls of the Language Model Provider in a trace.\<close>

definition llm_invocations :: "call list \<Rightarrow> nat" where
  "llm_invocations cs = length (filter (\<lambda>c. case c of LLMInvoke prompt \<Rightarrow> True | _ \<Rightarrow> False) cs)"

subsection \<open>Fixtures\<close>

text \<open>Collaborators that are all unreachable, and an environment without variables.\<close>

definition offline_pinecone :: "('w, string) pinecone" where
  "offline_pinecone =
     \<lparr>list_indexes = (\<lambda>w. (w, Inl ''unreachable'')),
      create_index = (\<lambda>w name n met cloud region. (w, Inl ''unreachable'')),
      describe_index = (\<lambda>w name. (w, Inl ''unreachable'')),
      delete_index = (\<lambda>w name. (w, Inl ''unreachable'')),
      index_delete_all = (\<lambda>w name. (w, Inl ''unreachable''))\<rparr>"

definition offline :: "('w, string) services" where
  "offline =
     \<lparr>os_environ = (\<lambda>name. None),
      os_path_isfile = (\<lambda>w p. False),
      os_path_isdir = (\<lambda>w p. False),
      os_path_exists = (\<lambda>w p. False),
      glob_glob = (\<lambda>w pattern. []),
      loader_load = (\<lambda>w ld p. Inl ''unreadable''),
      split_documents = (\<lambda>size overlap documents. documents),
      Pinecone = (\<lambda>api_key. if api_key = [] then Inl ''no API key'' else Inr offline_pinecone),
      from_documents = (\<lambda>w chunks name. (w, Inl ''unreachable'')),
      open_vector_store = (\<lambda>w name. (w, Inl ''unreachable'')),
      similarity_search = (\<lambda>w vs query k. (w, Inl ''unreachable'')),
      llm_invoke = (\<lambda>w prompt. (w, Inl ''unreachable'')),
      markdown_markdown = (\<lambda>md. md),
      str_raised = (\<lambda>e. e)\<rparr>"

definition initial_state :: "'w \<Rightarrow> 'w prog_state" where
  "initial_state w = \<lparr>world = w, calls = [], logs = [], flashes = []\<rparr>"

definition chunk :: "string \<Rightarrow> document" where
  "chunk t = \<lparr>page_content = t, metadata = [(''source'', ''resume.txt'')]\<rparr>"

text \<open>
  A store whose world is the version of its index: version \<open>n\<close> answers every search
  with the first \<open>k\<close> chunks of \<open>contents n\<close>, and the chat model is \<open>model\<close>.
\<close>

definition versioned ::
  "(nat \<Rightarrow> document list) \<Rightarrow> (nat \<Rightarrow> string \<Rightarrow> nat \<times> (string + string)) \<Rightarrow> (nat, string) services" where
  "versioned contents model =
     offline\<lparr>similarity_search := (\<lambda>w vs query k. (w, Inr (take k (contents w)))),
             llm_invoke := model\<rparr>"

definition hr_store :: vectorstore where
  "hr_store = PineconeVectorStore ''hr-index''"

definition question0 :: string where
  "question0 = ''What skills does the candidate have?''"

definition skills_chunk :: document where
  "skills_chunk = chunk ''Skills: Python, JavaScript, React''"

definition long_chunk :: document where
  "long_chunk = chunk (replicate 250 (CHR ''x''))"

definition shelf :: "nat \<Rightarrow> document list" where
  "shelf n = (if n = 0 then [skills_chunk, long_chunk] else [long_chunk])"

text \<open>Three chat models: one that times out, one that answers, and one during whose
  call the index is ingested again (its version changes).\<close>

definition timeout_model :: "nat \<Rightarrow> string \<Rightarrow> nat \<times> (string + string)" where
  "timeout_model w prompt = (w, Inl ''timeout'')"

definition steady_model :: "nat \<Rightarrow> string \<Rightarrow> nat \<times> (string + string)" where
  "steady_model w prompt = (w, Inr ''## Summary'')"

definition reingesting_model :: "nat \<Rightarrow> string \<Rightarrow> nat \<times> (string + string)" where
  "reingesting_model w prompt = (Suc w, Inr ''## Summary'')"

text \<open>
  The client \<^verbatim>\<open>ChatOpenAI\<close> is library code. One invocation of it sends a request to
  the provider and, when the request fails with an error the library holds retryable (a
  timeout, a rate limit), sends it again, up to \<open>max_retries\<close> more times. The client of
  \<^verbatim>\<open>chat_service.py\<close> is built without \<^verbatim>\<open>max_retries\<close> and keeps the library's
  default of 2.
\<close>

fun chat_openai_invoke ::
  "nat \<Rightarrow> ('e \<Rightarrow> bool) \<Rightarrow> ('w \<Rightarrow> string \<Rightarrow> 'w \<times> ('e + string)) \<Rightarrow> 'w \<Rightarrow> string \<Rightarrow> 'w \<times> ('e + string)" where
  "chat_openai_invoke 0 retryable request w prompt = request w prompt"
| "chat_openai_invoke (Suc max_retries) retryable request w prompt =
     (case request w prompt of
        (w', Inl e) \<Rightarrow>
          if retryable e then chat_openai_invoke max_retries retryable request w' prompt
          else (w', Inl e)
      | (w', Inr completion) \<Rightarrow> (w', Inr completion))"

definition retryable_error :: "string \<Rightarrow> bool" where
  "retryable_error e = (e = ''timeout'' \<or> e = ''rate limit'')"

text \<open>A provider whose world is the number of requests it has received, and that lets
  every request time out.\<close>

definition counting_timeout :: "nat \<Rightarrow> string \<Rightarrow> nat \<times> (string + string)" where
  "counting_timeout w prompt = (Suc w, Inl ''timeout'')"

text \<open>A deployment: the name of the index is configured and the store can be opened.\<close>

definition deployed :: "(nat, string) services \<Rightarrow> (nat, string) services" where
  "deployed S =
     S\<lparr>os_environ := (\<lambda>name. if name = ''INDEX_NAME'' then Some ''hr-index'' else None),
       open_vector_store := (\<lambda>w name. (w, Inr (PineconeVectorStore name)))\<rparr>"

text \<open>A store whose similarity search times out.\<close>

definition search_timeout :: "(nat, string) services" where
  "search_timeout = offline\<lparr>similarity_search := (\<lambda>w vs query k. (w, Inl ''timeout''))\<rparr>"

text \<open>A directory \<^verbatim>\<open>docs\<close> with a readable text file and a corrupt PDF, and a Markdown
  file beside it.\<close>

definition disk :: "(unit, string) services" where
  "disk =
     offline\<lparr>os_path_isfile := (\<lambda>w p. p = ''docs/resume.txt'' \<or> p = ''docs/corrupt.pdf'' \<or> p = ''notes.md''),
             os_path_isdir := (\<lambda>w p. p = ''docs''),
             os_path_exists := (\<lambda>w p. p = ''docs/resume.txt'' \<or> p = ''docs/corrupt.pdf'' \<or> p = ''notes.md''
                                       \<or> p = ''docs''),
             glob_glob := (\<lambda>w pattern. if pattern = ''docs/**/*.txt'' then [''docs/resume.txt'']
                                        else if pattern = ''docs/**/*.pdf'' then [''docs/corrupt.pdf'']
                                        else []),
             loader_load := (\<lambda>w ld p. if p = ''docs/resume.txt'' then Inr [skills_chunk] else Inl ''unreadable'')\<rparr>"

text \<open>An index left over from an embedding model of dimension 768.\<close>

definition stale_index :: vector_index where
  "stale_index =
     [(''hr-index'', \<lparr>dimension = 768, metric = ''cosine'',
                      index_records = [\<lparr>record_vector = [1], record_document = skills_chunk\<rparr>]\<rparr>)]"

text \<open>A similarity for the examples: the negated squared distance.\<close>

definition closeness :: "vector \<Rightarrow> vector \<Rightarrow> real" where
  "closeness u v = - sum_list (map (\<lambda>(a, b). (a - b) * (a - b)) (zip u v))"

definition origin_embedder :: "string \<Rightarrow> string + vector" where
  "origin_embedder query = Inr [0]"

definition six_records :: index_info where
  "six_records =
     \<lparr>dimension = 1, metric = ''cosine'',
      index_records = map (\<lambda>(x, t). \<lparr>record_vector = [x], record_document = chunk t\<rparr>)
                        [(1, ''a''), (3, ''b''), (2, ''c''), (6, ''d''), (5, ''e''), (4, ''f'')]\<rparr>"

definition searchable :: "(vector_index, string) services" where
  "searchable = offline\<lparr>similarity_search := ref_similarity_search origin_embedder closeness\<rparr>"

section \<open>Properties of the chat service\<close>

subsection \<open>Calls and runs\<close>

lemmas fixture_defs = versioned_def offline_def initial_state_def shelf_def hr_store_def
  timeout_model_def steady_model_def reingesting_model_def

lemmas run_defs = retriever_invoke_def llm_call_def external_def record_call_def

lemma logger_simps [simp]:
  "world (logger lv msg st) = world st" "calls (logger lv msg st) = calls st"
  by (simp_all add: logger_def)

lemma record_call_simps [simp]:
  "world (record_call c st) = world st" "calls (record_call c st) = calls st @ [c]"
  by (simp_all add: record_call_def)

lemma external_Inl:
  "f (world st) = (w', Inl e) \<Longrightarrow> external c f st = (record_call c (st\<lparr>world := w'\<rparr>), Inl (Raised e))"
  by (simp add: external_def)

lemma external_result:
  "external c f st = (st', r) \<Longrightarrow>
     st' = record_call c (st\<lparr>world := fst (f (world st))\<rparr>) \<and> r = map_sum Raised id (snd (f (world st)))"
  by (auto simp: external_def split: prod.splits sum.splits)

lemma retriever_invoke_result:
  "retriever_invoke S st vs q = (st', r) \<Longrightarrow>
     calls st' = calls st @ [SimilaritySearch vs q 5]
     \<and> world st' = fst (similarity_search S (world st) vs q 5)
     \<and> r = map_sum Raised id (snd (similarity_search S (world st) vs q 5))"
  by (auto simp: retriever_invoke_def dest!: external_result)

lemma llm_call_result:
  "llm_call S st prompt = (st', r) \<Longrightarrow>
     calls st' = calls st @ [LLMInvoke prompt]
     \<and> world st' = fst (llm_invoke S (world st) prompt)
     \<and> r = map_sum Raised id (snd (llm_invoke S (world st) prompt))"
  by (auto simp: llm_call_def dest!: external_result)

text \<open>A query that succeeds went through all three steps, and each of them succeeded.\<close>

lemma process_chat_question_success:
  assumes "process_chat_question S st question vectorstore = (st', Inr response)"
  obtains vs st1 docs st2 markdown_answer source_docs where
    "vectorstore = Some vs"
    "retriever_invoke S st vs question = (st1, Inr docs)"
    "llm_call S st1 (HR_PROMPT (format_docs docs) question) = (st2, Inr markdown_answer)"
    "retriever_invoke S st2 vs question = (st', Inr source_docs)"
    "response = \<lparr>answer = markdown_markdown S markdown_answer, sources = map source_entry source_docs\<rparr>"
  using assms
  by (auto simp: process_chat_question_def Let_def split: option.splits prod.splits sum.splits)

subsection \<open>The context block\<close>

lemma str_join_eq:
  "str_join sep parts = (case parts of [] \<Rightarrow> [] | p # ps \<Rightarrow> p @ concat (map (\<lambda>s. sep @ s) ps))"
proof -
  have "foldl (\<lambda>acc s. acc @ sep @ s) acc ps = acc @ concat (map (\<lambda>s. sep @ s) ps)" for acc ps
    by (induction ps arbitrary: acc) auto
  then show ?thesis by (simp add: str_join_def split: list.splits)
qed

lemma blank_line_separated_eq:
  "blank_line_separated ts = (case ts of [] \<Rightarrow> [] | p # ps \<Rightarrow> p @ concat (map (\<lambda>s. (NL @ NL) @ s) ps))"
  by (induction ts rule: blank_line_separated.induct) auto

lemma format_docs_spec: "format_docs docs = blank_line_separated (map page_content docs)"
  by (simp add: format_docs_def str_join_eq blank_line_separated_eq)

text \<open>
  Claim C6. The context block is the text of every retrieved chunk, in the order of the
  retriever, adjacent texts separated by a blank line and nothing else; and it is this
  block that the prompt sent to the chat model is filled with: whenever the first
  retrieval of a query returns \<open>docs\<close>, the second call of the query is the chat model on
  \<^verbatim>\<open>HR_PROMPT\<close> filled with that block and the question.
\<close>

theorem context_block_is_blank_line_separated:
  "format_docs docs = blank_line_separated (map page_content docs)
   \<and> (retriever_invoke S st vs question = (st1, Inr docs) \<longrightarrow>
        (\<exists>rest. calls (fst (process_chat_question S st question (Some vs)))
           = calls st @ [SimilaritySearch vs question 5,
                         LLMInvoke (HR_PROMPT (blank_line_separated (map page_content docs)) question)] @ rest))"
proof (intro conjI impI)
  show "format_docs docs = blank_line_separated (map page_content docs)"
    by (rule format_docs_spec)
next
  assume retrieved: "retriever_invoke S st vs question = (st1, Inr docs)"
  let ?prompt = "HR_PROMPT (format_docs docs) question"
  have calls1: "calls st1 = calls st @ [SimilaritySearch vs question 5]"
    using retriever_invoke_result [OF retrieved] by simp
  obtain st2 r where llm: "llm_call S st1 ?prompt = (st2, r)"
    by (cases "llm_call S st1 ?prompt")
  have calls2: "calls st2 = calls st @ [SimilaritySearch vs question 5, LLMInvoke ?prompt]"
    using llm_call_result [OF llm] calls1 by simp
  show "\<exists>rest. calls (fst (process_chat_question S st question (Some vs)))
           = calls st @ [SimilaritySearch vs question 5,
                         LLMInvoke (HR_PROMPT (blank_line_separated (map page_content docs)) question)] @ rest"
  proof (cases r)
    case (Inl e)
    then have "fst (process_chat_question S st question (Some vs)) = st2"
      by (simp add: process_chat_question_def retrieved llm)
    then show ?thesis using calls2 by (simp add: format_docs_spec)
  next
    case (Inr markdown_answer)
    obtain st3 r3 where second: "retriever_invoke S st2 vs question = (st3, r3)"
      by (cases "retriever_invoke S st2 vs question")
    have "fst (process_chat_question S st question (Some vs)) = st3"
      by (cases r3) (simp_all add: process_chat_question_def retrieved llm Inr second)
    moreover have "calls st3 = calls st2 @ [SimilaritySearch vs question 5]"
      using retriever_invoke_result [OF second] by simp
    ultimately show ?thesis using calls2 by (simp add: format_docs_spec)
  qed
qed

theorem context_block_is_blank_line_separated_witness:
  "calls (fst (process_chat_question (versioned shelf steady_model) (initial_state 0) question0 (Some hr_store)))
     = [SimilaritySearch hr_store question0 5,
        LLMInvoke (HR_PROMPT (''Skills: Python, JavaScript, React'' @ [CHR 0x0A, CHR 0x0A] @ replicate 250 (CHR ''x''))
                     question0),
        SimilaritySearch hr_store question0 5]"
proof -
  let ?S = "versioned shelf steady_model"
  let ?st1 = "\<lparr>world = 0::nat, calls = [SimilaritySearch hr_store question0 5], logs = [], flashes = []\<rparr>"
  have h1: "retriever_invoke ?S (initial_state 0) hr_store question0 = (?st1, Inr [skills_chunk, long_chunk])"
    by (simp add: run_defs fixture_defs)
  from context_block_is_blank_line_separated
         [of "[skills_chunk, long_chunk]" ?S "initial_state 0" hr_store question0 ?st1] h1
  obtain rest where "calls (fst (process_chat_question ?S (initial_state 0) question0 (Some hr_store)))
           = calls (initial_state (0::nat)) @ [SimilaritySearch hr_store question0 5,
                LLMInvoke (HR_PROMPT (blank_line_separated (map page_content [skills_chunk, long_chunk])) question0)] @ rest"
    by blast
  moreover have "length (calls (fst (process_chat_question ?S (initial_state 0) question0 (Some hr_store)))) = 3"
    and "calls (fst (process_chat_question ?S (initial_state 0) question0 (Some hr_store))) ! 2
           = SimilaritySearch hr_store question0 5"
    by (simp_all add: process_chat_question_def run_defs fixture_defs)
  ultimately show ?thesis
    by (cases rest) (auto simp: initial_state_def skills_chunk_def long_chunk_def chunk_def NL_def)
qed

subsection \<open>The sources of an answer\<close>

text \<open>
  Claim C3. For every successful query, each element of the returned sources is built
  from one chunk of the second retrieval, in order: its content is the first 200
  characters of the chunk's text followed by an ellipsis when the text is longer than 200
  characters, and the text unchanged otherwise (so never more than 203 characters), and
  its metadata is the chunk's metadata.
\<close>

theorem sources_truncated_to_200_characters:
  assumes "process_chat_question S st question vectorstore = (st', Inr response)"
  shows "\<exists>vs st2 source_docs.
           vectorstore = Some vs
         \<and> retriever_invoke S st2 vs question = (st', Inr source_docs)
         \<and> length (sources response) = length source_docs
         \<and> (\<forall>i < length source_docs.
              content (sources response ! i)
                = (if length (page_content (source_docs ! i)) > 200
                   then take 200 (page_content (source_docs ! i)) @ ''...''
                   else page_content (source_docs ! i))
              \<and> length (content (sources response ! i)) \<le> 203
              \<and> source_metadata (sources response ! i) = metadata (source_docs ! i))"
proof -
  from assms obtain vs st1 docs st2 markdown_answer source_docs where
    vs: "vectorstore = Some vs"
    and second: "retriever_invoke S st2 vs question = (st', Inr source_docs)"
    and resp: "response = \<lparr>answer = markdown_markdown S markdown_answer, sources = map source_entry source_docs\<rparr>"
    by (rule process_chat_question_success)
  have "\<forall>i < length source_docs.
          content (sources response ! i)
            = (if length (page_content (source_docs ! i)) > 200
               then take 200 (page_content (source_docs ! i)) @ ''...''
               else page_content (source_docs ! i))
          \<and> length (content (sources response ! i)) \<le> 203
          \<and> source_metadata (sources response ! i) = metadata (source_docs ! i)"
    by (simp add: resp source_entry_def)
  moreover have "length (sources response) = length source_docs"
    by (simp add: resp)
  ultimately show ?thesis using vs second by blast
qed

theorem sources_truncated_to_200_characters_witness:
  "map content (sources (projr (snd (process_chat_question (versioned shelf steady_model) (initial_state 0)
      question0 (Some hr_store)))))
     = [''Skills: Python, JavaScript, React'', replicate 200 (CHR ''x'') @ ''...'']"
proof -
  let ?S = "versioned shelf steady_model"
  let ?run = "process_chat_question ?S (initial_state 0) question0 (Some hr_store)"
  have ok: "?run = (fst ?run, Inr (projr (snd ?run)))"
    by (simp add: process_chat_question_def run_defs fixture_defs)
  from sources_truncated_to_200_characters [OF ok] obtain vs st2 source_docs where
    second: "retriever_invoke ?S st2 vs question0 = (fst ?run, Inr source_docs)"
    and len: "length (sources (projr (snd ?run))) = length source_docs"
    and each: "\<forall>i < length source_docs.
              content (sources (projr (snd ?run)) ! i)
                = (if length (page_content (source_docs ! i)) > 200
                   then take 200 (page_content (source_docs ! i)) @ ''...''
                   else page_content (source_docs ! i))
              \<and> length (content (sources (projr (snd ?run)) ! i)) \<le> 203
              \<and> source_metadata (sources (projr (snd ?run)) ! i) = metadata (source_docs ! i)"
    by blast
  have "world (fst ?run) = 0"
    by (simp add: process_chat_question_def run_defs fixture_defs)
  with retriever_invoke_result [OF second] have "world st2 = 0"
    by (simp add: fixture_defs)
  with retriever_invoke_result [OF second] have docs: "source_docs = [skills_chunk, long_chunk]"
    by (simp add: fixture_defs)
  have "content (sources (projr (snd ?run)) ! 0) = ''Skills: Python, JavaScript, React''"
    using each [rule_format, of 0] by (simp add: docs skills_chunk_def chunk_def)
  moreover have "content (sources (projr (snd ?run)) ! 1) = replicate 200 (CHR ''x'') @ ''...''"
    using each [rule_format, of 1] by (simp add: docs long_chunk_def chunk_def)
  moreover have "length (sources (projr (snd ?run))) = 2"
    using len by (simp add: docs)
  ultimately show ?thesis
    by (simp add: list_eq_iff_nth_eq nth_Cons' less_Suc_eq numeral_2_eq_2)
qed

text \<open>
  Claim C9. A successful query makes two separate retrievals with the same question, one
  before and one after the call of the chat model; the context is built from the first
  and the sources from the second. If retrieval is a function \<open>retrieve\<close> of the state
  \<open>index_of w\<close> of the index and of the question, and that state is the same at the
  second retrieval as at the first, then the sources are built from exactly the chunks
  of the context.
\<close>

theorem sources_are_context_chunks_when_retrieval_is_deterministic:
  assumes run: "process_chat_question S st question (Some vs) = (st', Inr response)"
  shows "\<exists>st1 docs st2 markdown_answer source_docs.
           retriever_invoke S st vs question = (st1, Inr docs)
         \<and> llm_call S st1 (HR_PROMPT (format_docs docs) question) = (st2, Inr markdown_answer)
         \<and> retriever_invoke S st2 vs question = (st', Inr source_docs)
         \<and> calls st' = calls st @ [SimilaritySearch vs question 5,
                                    LLMInvoke (HR_PROMPT (format_docs docs) question),
                                    SimilaritySearch vs question 5]
         \<and> sources response = map source_entry source_docs
         \<and> ((\<forall>w. snd (similarity_search S w vs question 5) = retrieve (index_of w) question)
              \<and> index_of (world st2) = index_of (world st)
              \<longrightarrow> source_docs = docs)"
proof -
  from run obtain vs' st1 docs st2 markdown_answer source_docs where
    vs: "Some vs = Some vs'"
    and first: "retriever_invoke S st vs' question = (st1, Inr docs)"
    and llm: "llm_call S st1 (HR_PROMPT (format_docs docs) question) = (st2, Inr markdown_answer)"
    and second: "retriever_invoke S st2 vs' question = (st', Inr source_docs)"
    and resp: "response = \<lparr>answer = markdown_markdown S markdown_answer, sources = map source_entry source_docs\<rparr>"
    by (rule process_chat_question_success)
  from vs have [simp]: "vs' = vs" by simp
  note r1 = retriever_invoke_result [OF first, simplified]
  note r2 = llm_call_result [OF llm]
  note r3 = retriever_invoke_result [OF second, simplified]
  have trace: "calls st' = calls st @ [SimilaritySearch vs question 5,
                                    LLMInvoke (HR_PROMPT (format_docs docs) question),
                                    SimilaritySearch vs question 5]"
    using r1 r2 r3 by simp
  have same: "source_docs = docs"
    if det: "\<forall>w. snd (similarity_search S w vs question 5) = retrieve (index_of w) question"
      and unchanged: "index_of (world st2) = index_of (world st)"
  proof -
    have "Inr source_docs = map_sum Raised id (retrieve (index_of (world st2)) question)"
      using r3 det by simp
    also have "\<dots> = map_sum Raised id (retrieve (index_of (world st)) question)"
      by (simp add: unchanged)
    also have "\<dots> = Inr docs"
      using r1 det by simp
    finally show ?thesis by simp
  qed
  show ?thesis
    using first llm second trace resp same by auto
qed

theorem sources_are_context_chunks_when_retrieval_is_deterministic_witness:
  "sources (projr (snd (process_chat_question (versioned shelf steady_model) (initial_state 0)
      question0 (Some hr_store))))
     = map source_entry [skills_chunk, long_chunk]
   \<and> calls (fst (process_chat_question (versioned shelf steady_model) (initial_state 0)
      question0 (Some hr_store)))
     = [SimilaritySearch hr_store question0 5,
        LLMInvoke (HR_PROMPT (format_docs [skills_chunk, long_chunk]) question0),
        SimilaritySearch hr_store question0 5]"
proof -
  let ?S = "versioned shelf steady_model"
  let ?run = "process_chat_question ?S (initial_state 0) question0 (Some hr_store)"
  have ok: "?run = (fst ?run, Inr (projr (snd ?run)))"
    by (simp add: process_chat_question_def run_defs fixture_defs)
  have det: "\<forall>w. snd (similarity_search ?S w hr_store question0 5) = (\<lambda>n q. Inr (take 5 (shelf n))) (id w) question0"
    by (simp add: fixture_defs)
  from sources_are_context_chunks_when_retrieval_is_deterministic
         [OF ok, of "\<lambda>n q. Inr (take 5 (shelf n))" id]
  obtain st1 docs st2 markdown_answer source_docs where
    first: "retriever_invoke ?S (initial_state 0) hr_store question0 = (st1, Inr docs)"
    and llm: "llm_call ?S st1 (HR_PROMPT (format_docs docs) question0) = (st2, Inr markdown_answer)"
    and trace: "calls (fst ?run) = calls (initial_state (0::nat)) @ [SimilaritySearch hr_store question0 5,
                                    LLMInvoke (HR_PROMPT (format_docs docs) question0),
                                    SimilaritySearch hr_store question0 5]"
    and src: "sources (projr (snd ?run)) = map source_entry source_docs"
    and same: "(\<forall>w. snd (similarity_search ?S w hr_store question0 5) = (\<lambda>n q. Inr (take 5 (shelf n))) (id w) question0)
              \<and> id (world st2) = id (world (initial_state (0::nat)))
              \<longrightarrow> source_docs = docs"
    by blast
  from first have docs: "docs = [skills_chunk, long_chunk]" and w1: "world st1 = 0"
    by (auto simp: run_defs fixture_defs)
  from llm w1 have "world st2 = 0"
    by (auto simp: run_defs fixture_defs split: prod.splits sum.splits)
  with same det have "source_docs = docs"
    by (simp add: initial_state_def)
  with src trace docs show ?thesis
    by (simp add: initial_state_def)
qed

text \<open>
  The hypothesis on the index is needed: when the index is ingested again while the chat
  model is answering, the sources are built from chunks that were not in the context.
\<close>

lemma sources_differ_when_index_changes:
  "calls (fst (process_chat_question (versioned shelf reingesting_model) (initial_state 0) question0 (Some hr_store)))
     = [SimilaritySearch hr_store question0 5,
        LLMInvoke (HR_PROMPT (format_docs [skills_chunk, long_chunk]) question0),
        SimilaritySearch hr_store question0 5]
   \<and> sources (projr (snd (process_chat_question (versioned shelf reingesting_model) (initial_state 0)
        question0 (Some hr_store))))
     = map source_entry [long_chunk]"
  by (simp add: process_chat_question_def run_defs fixture_defs)

subsection \<open>Failures of a query\<close>

text \<open>
  Claim C2, as amended. When the invocation \<^verbatim>\<open>llm.invoke\<close> of the chat model fails with
  an exception \<open>e\<close>, \<^verbatim>\<open>process_chat_question\<close> raises that very exception, unwrapped
  and unconverted, to its caller. \<^verbatim>\<open>process_chat_question\<close> has then invoked the chat
  model exactly once and retries nothing itself; the only other call of the query is the
  similarity search before it, and when neither of these two calls changes the state
  \<open>index_of w\<close> of the Vector Index, that state is after the query what it was before.
  The theorem counts invocations of the client, not the requests that the client sends
  to the provider within one invocation.
\<close>

theorem llm_failure_propagates_after_one_invocation:
  assumes retrieved: "retriever_invoke S st vs question = (st1, Inr docs)"
    and failed: "llm_invoke S (world st1) (HR_PROMPT (format_docs docs) question) = (w2, Inl e)"
  shows "\<exists>st'. process_chat_question S st question (Some vs) = (st', Inl (Raised e))
           \<and> calls st' = calls st @ [SimilaritySearch vs question 5,
                                      LLMInvoke (HR_PROMPT (format_docs docs) question)]
           \<and> llm_invocations (calls st') = llm_invocations (calls st) + 1
           \<and> world st' = w2
           \<and> ((\<forall>w. index_of (fst (similarity_search S w vs question 5)) = index_of w)
                \<and> (\<forall>w prompt. index_of (fst (llm_invoke S w prompt)) = index_of w)
                \<longrightarrow> index_of (world st') = index_of (world st))"
proof -
  let ?prompt = "HR_PROMPT (format_docs docs) question"
  let ?st' = "record_call (LLMInvoke ?prompt) (st1\<lparr>world := w2\<rparr>)"
  have llm: "llm_call S st1 ?prompt = (?st', Inl (Raised e))"
    using failed by (simp add: llm_call_def external_Inl)
  have run: "process_chat_question S st question (Some vs) = (?st', Inl (Raised e))"
    by (simp add: process_chat_question_def retrieved llm)
  have calls1: "calls st1 = calls st @ [SimilaritySearch vs question 5]"
    and world1: "world st1 = fst (similarity_search S (world st) vs question 5)"
    using retriever_invoke_result [OF retrieved] by simp_all
  have trace: "calls ?st' = calls st @ [SimilaritySearch vs question 5, LLMInvoke ?prompt]"
    by (simp add: calls1)
  have count: "llm_invocations (calls ?st') = llm_invocations (calls st) + 1"
    by (simp add: calls1 llm_invocations_def)
  have w: "world ?st' = w2"
    by simp
  have idx: "index_of (world ?st') = index_of (world st)"
    if ro: "\<forall>w. index_of (fst (similarity_search S w vs question 5)) = index_of w"
      and llm_ro: "\<forall>w prompt. index_of (fst (llm_invoke S w prompt)) = index_of w"
  proof -
    have "index_of w2 = index_of (world st1)"
      using llm_ro [rule_format, of "world st1" ?prompt] failed by simp
    also have "\<dots> = index_of (world st)"
      using ro [rule_format, of "world st"] world1 by simp
    finally show ?thesis by (simp add: w)
  qed
  show ?thesis
    using run trace count w idx by blast
qed

theorem llm_failure_propagates_after_one_invocation_witness:
  "snd (process_chat_question (versioned shelf timeout_model) (initial_state 0) question0 (Some hr_store))
     = Inl (Raised ''timeout'')
   \<and> llm_invocations (calls (fst (process_chat_question (versioned shelf timeout_model) (initial_state 0)
        question0 (Some hr_store)))) = 1
   \<and> world (fst (process_chat_question (versioned shelf timeout_model) (initial_state 0)
        question0 (Some hr_store))) = 0"
proof -
  let ?S = "versioned shelf timeout_model"
  let ?st1 = "\<lparr>world = 0::nat, calls = [SimilaritySearch hr_store question0 5], logs = [], flashes = []\<rparr>"
  have h1: "retriever_invoke ?S (initial_state 0) hr_store question0 = (?st1, Inr [skills_chunk, long_chunk])"
    by (simp add: run_defs fixture_defs)
  have h2: "llm_invoke ?S (world ?st1) (HR_PROMPT (format_docs [skills_chunk, long_chunk]) question0)
              = (0, Inl ''timeout'')"
    by (simp add: fixture_defs)
  have ro: "\<forall>w. fst (similarity_search ?S w hr_store question0 5) = w"
    and llm_ro: "\<forall>w prompt. fst (llm_invoke ?S w prompt) = w"
    by (simp_all add: fixture_defs)
  show ?thesis
    using llm_failure_propagates_after_one_invocation [OF h1 h2, of "\<lambda>w. w"] ro llm_ro
    by (clarsimp simp: initial_state_def llm_invocations_def)
qed

text \<open>
  The claim as it was stated fails twice. The failure does not reach the caller as a
  \<^verbatim>\<open>GenerationError\<close>: what \<^verbatim>\<open>process_chat_question\<close> raises is the client's own
  timeout, and the route answers a failed generation and a failed retrieval with the
  same status and the same body. And the provider is not reached exactly once per
  question: within the single invocation of the client, built with the default of two
  retries, three requests reach a provider that times out.
\<close>

theorem llm_failure_is_untyped_and_requests_are_resent:
  "snd (process_chat_question (versioned shelf timeout_model) (initial_state 0) question0 (Some hr_store))
     = Inl (Raised ''timeout'')
   \<and> snd (chat (deployed (versioned shelf timeout_model)) (initial_state 0) question0)
       = (500, ErrorBody ''Error: timeout'')
   \<and> snd (chat (deployed search_timeout) (initial_state 0) question0)
       = (500, ErrorBody ''Error: timeout'')
   \<and> llm_invocations (calls (fst (process_chat_question
         (versioned shelf (chat_openai_invoke 2 retryable_error counting_timeout))
         (initial_state 0) question0 (Some hr_store)))) = 1
   \<and> world (fst (process_chat_question
         (versioned shelf (chat_openai_invoke 2 retryable_error counting_timeout))
         (initial_state 0) question0 (Some hr_store))) = 3"
  by (simp add: process_chat_question_def chat_def get_vector_store_def environ_get_def str_exc_def
      logger_def llm_invocations_def run_defs fixture_defs deployed_def search_timeout_def
      counting_timeout_def retryable_error_def question0_def numeral_2_eq_2)

text \<open>
  At the route, the exception is caught by \<^verbatim>\<open>except Exception\<close>, logged, and answered
  with status 500 and the message of the exception.
\<close>

lemma chat_answers_500_on_llm_failure:
  assumes "question \<noteq> []"
    and "get_vector_store S st = (st0, Some vs)"
    and "retriever_invoke S st0 vs question = (st1, Inr docs)"
    and "llm_invoke S (world st1) (HR_PROMPT (format_docs docs) question) = (w2, Inl e)"
  shows "snd (chat S st question) = (500, ErrorBody (''Error: '' @ str_raised S e))"
proof -
  have "llm_call S st1 (HR_PROMPT (format_docs docs) question)
          = (record_call (LLMInvoke (HR_PROMPT (format_docs docs) question)) (st1\<lparr>world := w2\<rparr>), Inl (Raised e))"
    using assms(4) by (simp add: llm_call_def external_Inl)
  then have "snd (process_chat_question S st0 question (Some vs)) = Inl (Raised e)"
    by (simp add: process_chat_question_def assms(3))
  then show ?thesis
    using assms(1,2)
    by (cases "process_chat_question S st0 question (Some vs)") (simp add: chat_def str_exc_def)
qed

text \<open>
  Claim C5. A query without a vector store fails, and its failure is reported as such:
  \<^verbatim>\<open>process_chat_question\<close> raises \<^verbatim>\<open>ValueError("Vector store not available")\<close>
  before any call is made, whatever the question; and when \<^verbatim>\<open>get_vector_store\<close>
  yields no store, the route answers a question with status 400 and a message of its
  own, without calling the retriever or the chat model.
\<close>

theorem missing_vector_store_is_reported:
  "process_chat_question S st question None = (st, Inl (ValueError ''Vector store not available''))
   \<and> (question \<noteq> [] \<and> snd (get_vector_store S st) = None \<longrightarrow>
        chat S st question
          = (fst (get_vector_store S st), 400, ErrorBody ''Vector store not available. Please update first.''))"
  by (auto simp: process_chat_question_def chat_def split: prod.splits option.splits)

theorem missing_vector_store_is_reported_witness:
  "snd (get_vector_store (offline :: (unit, string) services) (initial_state ())) = None
   \<and> snd (chat (offline :: (unit, string) services) (initial_state ()) question0)
       = (400, ErrorBody ''Vector store not available. Please update first.'')"
proof -
  have q: "question0 \<noteq> []" by (simp add: question0_def)
  have none: "snd (get_vector_store (offline :: (unit, string) services) (initial_state ())) = None"
    by (simp add: get_vector_store_def environ_get_def offline_def)
  from missing_vector_store_is_reported [of offline "initial_state ()" question0] q none
  show ?thesis by simp
qed

text \<open>
  \<^verbatim>\<open>get_vector_store\<close> yields no store exactly when the name of the index is not
  configured or the store cannot be opened; the failure is logged, never raised.
\<close>

lemma get_vector_store_None_iff:
  "snd (get_vector_store S st) = None \<longleftrightarrow>
     (case os_environ S ''INDEX_NAME'' of
        None \<Rightarrow> True
      | Some index_name \<Rightarrow> (\<exists>e. snd (open_vector_store S (world st) index_name) = Inl e))"
  by (auto simp: get_vector_store_def environ_get_def external_def split: option.splits prod.splits sum.splits)

section \<open>Properties of the document service\<close>

subsection \<open>Loading\<close>

lemma file_name_examples:
  "splitext ''notes.md'' = (''notes'', ''.md'')"
  "splitext ''docs/corrupt.pdf'' = (''docs/corrupt'', ''.pdf'')"
  "splitext ''archive.tar/.hidden'' = (''archive.tar/.hidden'', [])"
  "lower ''.PDF'' = ''.pdf''"
  "lower [CHR 0xC9, CHR 0xD7, CHR 0xDF] = [CHR 0xE9, CHR 0xD7, CHR 0xDF]"
  "os_path_join ''docs'' [''**'', ''*.txt''] = ''docs/**/*.txt''"
  "str_nat 1536 = ''1536''"
  by code_simp+

lemma load_single_file_eq:
  "\<exists>st'. load_single_file S st file_path = (st', Inr (file_documents S (world st) file_path))
         \<and> world st' = world st"
  by (auto simp: load_single_file_def load_single_file_try_def file_documents_def external_def Let_def
      split: option.splits sum.splits prod.splits)

lemma load_single_file_unsupported:
  "map_of loaders (lower (snd (splitext file_path))) = None \<Longrightarrow>
     load_single_file S st file_path
       = (logger WARNING (''Unsupported file type: '' @ lower (snd (splitext file_path))) st, Inr [])"
  by (simp add: load_single_file_def load_single_file_try_def Let_def)

lemma load_single_file_failure:
  "map_of loaders (lower (snd (splitext file_path))) = Some ld \<Longrightarrow>
   loader_load S (world st) ld file_path = Inl e \<Longrightarrow>
     load_single_file S st file_path
       = (logger ERROR (''Error loading '' @ file_path @ '': '' @ str_raised S e)
            (record_call (LoaderLoad ld file_path) st), Inr [])"
  by (simp add: load_single_file_def load_single_file_try_def Let_def external_def str_exc_def record_call_def)

lemma load_files_eq:
  "\<exists>st'. load_files S st documents files
            = (st', Inr (documents @ concat (map (file_documents S (world st)) files)))
         \<and> world st' = world st"
proof (induction files arbitrary: st documents)
  case Nil
  show ?case by simp
next
  case (Cons p ps)
  obtain st1 where one: "load_single_file S st p = (st1, Inr (file_documents S (world st) p))"
    and w1: "world st1 = world st"
    using load_single_file_eq [of S st p] by blast
  from Cons.IH [of st1 "documents @ file_documents S (world st) p"] w1 one
  show ?case by simp
qed

lemma load_patterns_eq:
  "\<exists>st'. load_patterns S st path documents exts
            = (st', Inr (documents @ concat (map (\<lambda>ext. concat (map (file_documents S (world st))
                   (glob_glob S (world st) (os_path_join path [''**'', ext])))) exts)))
         \<and> world st' = world st"
proof (induction exts arbitrary: st documents)
  case Nil
  show ?case by simp
next
  case (Cons ext exts)
  let ?pattern = "os_path_join path [''**'', ext]"
  let ?files = "glob_glob S (world st) ?pattern"
  obtain st1 where inner: "load_files S (record_call (Glob ?pattern) st) documents ?files
      = (st1, Inr (documents @ concat (map (file_documents S (world st)) ?files)))"
    and w1: "world st1 = world st"
    using load_files_eq [of S "record_call (Glob ?pattern) st" documents ?files] by auto
  from Cons.IH [of st1 "documents @ concat (map (file_documents S (world st)) ?files)"] w1 inner
  show ?case by (simp add: Let_def)
qed

text \<open>
  A directory yields what its files yield, pattern by pattern, in the order of the
  patterns and of \<^verbatim>\<open>glob\<close>.
\<close>

lemma load_documents_directory:
  assumes "\<not> os_path_isfile S (world st) path" and "os_path_isdir S (world st) path"
  shows "\<exists>st'. load_documents S st path
           = (st', Inr (concat (map (\<lambda>ext. concat (map (file_documents S (world st))
                  (glob_glob S (world st) (os_path_join path [''**'', ext]))))
                [''*.txt'', ''*.pdf'', ''*.docx''])))"
  using assms load_patterns_eq [of S st path "[]" "[''*.txt'', ''*.pdf'', ''*.docx'']"]
  by (auto simp: load_documents_def)

lemma load_documents_total: "\<exists>st' documents. load_documents S st path = (st', Inr documents)"
proof -
  consider (regular) "os_path_isfile S (world st) path"
    | (directory) "\<not> os_path_isfile S (world st) path" "os_path_isdir S (world st) path"
    | (neither) "\<not> os_path_isfile S (world st) path" "\<not> os_path_isdir S (world st) path"
    by blast
  then show ?thesis
  proof cases
    case regular
    then show ?thesis
      using load_single_file_eq [of S st path] by (auto simp: load_documents_def)
  next
    case directory
    then show ?thesis
      using load_documents_directory [of S st path] by blast
  next
    case neither
    then show ?thesis by (simp add: load_documents_def)
  qed
qed

text \<open>
  Claim C8. Loading one file never raises: the result is always a list, namely what the
  file's reader yields, and the empty list when the extension is unsupported or the
  reader fails. An unsupported extension is logged as a warning and no reader is called;
  a failure of the reader is caught and logged as an error. Hence a loop over files
  never stops early, each file adding its own Documents or none, and
  \<^verbatim>\<open>load_documents\<close> always returns a list.
\<close>

theorem load_single_file_never_raises:
  "(\<exists>st'. load_single_file S st file_path = (st', Inr (file_documents S (world st) file_path))
          \<and> world st' = world st)
   \<and> (map_of loaders (lower (snd (splitext file_path))) = None \<longrightarrow>
        load_single_file S st file_path
          = (logger WARNING (''Unsupported file type: '' @ lower (snd (splitext file_path))) st, Inr []))
   \<and> (map_of loaders (lower (snd (splitext file_path))) = Some ld
        \<and> loader_load S (world st) ld file_path = Inl e \<longrightarrow>
        load_single_file S st file_path
          = (logger ERROR (''Error loading '' @ file_path @ '': '' @ str_raised S e)
               (record_call (LoaderLoad ld file_path) st), Inr []))
   \<and> (\<exists>st'. load_files S st documents files
               = (st', Inr (documents @ concat (map (file_documents S (world st)) files))))
   \<and> (\<exists>st' loaded. load_documents S st path = (st', Inr loaded))"
  using load_single_file_eq [of S st file_path] load_single_file_unsupported [of file_path S st]
    load_single_file_failure [of file_path ld S st e] load_files_eq [of S st documents files]
    load_documents_total [of S st path]
  by blast

theorem load_single_file_never_raises_witness:
  "load_single_file disk (initial_state ()) ''notes.md''
     = (\<lparr>world = (), calls = [], logs = [(WARNING, ''Unsupported file type: .md'')], flashes = []\<rparr>, Inr [])
   \<and> load_single_file disk (initial_state ()) ''docs/corrupt.pdf''
     = (\<lparr>world = (), calls = [LoaderLoad PyPDFLoader ''docs/corrupt.pdf''],
         logs = [(ERROR, ''Error loading docs/corrupt.pdf: unreadable'')], flashes = []\<rparr>, Inr [])
   \<and> snd (load_files disk (initial_state ()) [] [''docs/corrupt.pdf'', ''docs/resume.txt''])
     = Inr [skills_chunk]"
proof -
  have md: "lower (snd (splitext ''notes.md'')) = ''.md''"
    and pdf: "lower (snd (splitext ''docs/corrupt.pdf'')) = ''.pdf''"
    and plain: "lower (snd (splitext ''docs/resume.txt'')) = ''.txt''"
    by code_simp+
  have unsupported: "map_of loaders (lower (snd (splitext ''notes.md''))) = None"
    by (simp add: md loaders_def)
  have supported: "map_of loaders (lower (snd (splitext ''docs/corrupt.pdf''))) = Some PyPDFLoader"
    by (simp add: pdf loaders_def)
  have fails: "loader_load disk (world (initial_state ())) PyPDFLoader ''docs/corrupt.pdf'' = Inl ''unreadable''"
    by (simp add: disk_def offline_def)
  have contributes: "map (file_documents disk ()) [''docs/corrupt.pdf'', ''docs/resume.txt''] = [[], [skills_chunk]]"
    by (simp add: file_documents_def pdf plain loaders_def disk_def offline_def)
  show ?thesis
    using load_single_file_never_raises
            [of disk "initial_state ()" "''notes.md''" PyPDFLoader "''unreadable''" "[]"
                "[''docs/corrupt.pdf'', ''docs/resume.txt'']" "''docs''"]
      load_single_file_never_raises
            [of disk "initial_state ()" "''docs/corrupt.pdf''" PyPDFLoader "''unreadable''" "[]" "[]" "''docs''"]
      unsupported supported fails contributes
    by (clarsimp simp: md initial_state_def logger_def record_call_def disk_def offline_def)
qed

text \<open>
  Claim C10. For a path that is neither a regular file nor a directory,
  \<^verbatim>\<open>load_documents\<close> returns the empty list and leaves the state as it was: no reader
  is called, no directory is listed, nothing is logged.
\<close>

theorem load_documents_of_missing_path:
  "\<not> os_path_isfile S (world st) path \<Longrightarrow> \<not> os_path_isdir S (world st) path \<Longrightarrow>
     load_documents S st path = (st, Inr [])"
  by (simp add: load_documents_def)

theorem load_documents_of_missing_path_witness:
  "load_documents disk (initial_state ()) ''/no/such/path'' = (initial_state (), Inr [])"
  using load_documents_of_missing_path [of disk "initial_state ()" "''/no/such/path''"]
  by (simp add: disk_def offline_def initial_state_def)

subsection \<open>Creating the vector store\<close>

text \<open>
  Claim C4, as amended. Called with an empty list of documents,
  \<^verbatim>\<open>create_vector_store\<close> returns \<^verbatim>\<open>None\<close> at once and leaves the state as it was:
  no call is made to the Embedding Provider or to the Vector Index, and nothing is
  logged. \<^verbatim>\<open>None\<close> is not a success value: it is what the function returns when the
  creation fails, and what its caller reports as an error.
\<close>

theorem create_vector_store_of_no_documents:
  "create_vector_store S st [] = (st, None)"
  by (simp add: create_vector_store_def)

theorem create_vector_store_of_no_documents_witness:
  "create_vector_store searchable (initial_state stale_index) [] = (initial_state stale_index, None)"
  using create_vector_store_of_no_documents [of searchable "initial_state stale_index"] by simp

text \<open>
  The value returned for the empty list is the value returned when the creation fails
  (here the environment variables are missing), and \<^verbatim>\<open>update_vectorstore\<close> flashes an
  error for it.
\<close>

theorem empty_document_list_is_not_a_success:
  "snd (create_vector_store (offline :: (unit, string) services) (initial_state ()) []) = None
   \<and> snd (create_vector_store (offline :: (unit, string) services) (initial_state ()) [skills_chunk]) = None
   \<and> flashes (flash_vector_store_result (initial_state ())
         (snd (create_vector_store (offline :: (unit, string) services) (initial_state ()) [])) [])
       = [(''Error creating vector store.'', ''error'')]"
  by (simp add: create_vector_store_def create_vector_store_try_def environ_get_def offline_def
      flash_vector_store_result_def flash_def initial_state_def logger_def skills_chunk_def chunk_def)

text \<open>
  The route itself never passes an empty list: when nothing was loaded it flashes a
  warning and returns before \<^verbatim>\<open>create_vector_store\<close>.
\<close>

lemma update_vectorstore_without_documents:
  assumes "file_path \<noteq> []" and "os_path_exists S (world st) file_path"
    and "delete_all_documents S st = (st1, cleared)"
    and "load_documents S (if cleared then flash ''Existing documents cleared.'' ''info'' st1 else st1) file_path
           = (st3, Inr [])"
  shows "update_vectorstore S st file_path = flash ''No documents found.'' ''warning'' st3"
  using assms by (simp add: update_vectorstore_def Let_def)

text \<open>
  A client that cannot be built (an empty API key) fails both operations before the name
  of the index is read and before any call; the failure is logged, never raised.
\<close>

lemma create_vector_store_without_client:
  assumes "documents \<noteq> []" and "os_environ S ''PINECONE_API_KEY'' = Some api_key"
    and "Pinecone S api_key = Inl x"
  shows "create_vector_store S st documents
           = (logger ERROR (''Error creating vector store: '' @ str_raised S x) st, None)"
  using assms
  by (simp add: create_vector_store_def create_vector_store_try_def environ_get_def str_exc_def Let_def)

lemma delete_all_documents_without_client:
  assumes "os_environ S ''PINECONE_API_KEY'' = Some api_key" and "Pinecone S api_key = Inl x"
  shows "delete_all_documents S st
           = (logger ERROR (''Error deleting documents: '' @ str_raised S x) st, False)"
  using assms
  by (simp add: delete_all_documents_def environ_get_def str_exc_def)

subsection \<open>The dimension of the index\<close>

lemma map_of_Some_in_names: "map_of w name = Some info \<Longrightarrow> name \<in> set (map fst w)"
  by (induction w) (auto split: if_splits)

lemma map_of_without: "map_of (filter (\<lambda>entry. fst entry \<noteq> name) w) name = None"
  by (induction w) auto

lemma names_without: "name \<notin> set (map fst (filter (\<lambda>entry. fst entry \<noteq> name) w))"
  by (induction w) auto

lemma ensure_index_exists_mismatch:
  assumes present: "map_of (world st) index_name = Some info"
    and mismatch: "dimension info \<noteq> 1536"
  shows "ensure_index_exists reference_pinecone st index_name
           = (st\<lparr>world := filter (\<lambda>entry. fst entry \<noteq> index_name) (world st)
                            @ [(index_name, \<lparr>dimension = 1536, metric = ''cosine'', index_records = []\<rparr>)],
                 calls := calls st @ [ListIndexes, DescribeIndex index_name, DeleteIndex index_name, Sleep 5,
                                      CreateIndex index_name 1536 ''cosine'' ''aws'' ''us-east-1'', Sleep 10]\<rparr>,
              Inr ())"
proof -
  have listed: "index_name \<in> fst ` set (world st)"
    using map_of_Some_in_names [OF present] by simp
  show ?thesis
    using present mismatch listed names_without [of index_name "world st"]
    by (simp add: ensure_index_exists_def external_def reference_pinecone_def ref_list_indexes_def
        ref_describe_index_def ref_delete_index_def ref_create_index_def record_call_def)
qed

lemma describe_recreated:
  "snd (describe_index reference_pinecone
          (filter (\<lambda>entry. fst entry \<noteq> index_name) w
             @ [(index_name, \<lparr>dimension = 1536, metric = ''cosine'', index_records = []\<rparr>)]) index_name)
     = Inr 1536"
  by (simp add: reference_pinecone_def ref_describe_index_def map_of_without map_add_def)

text \<open>
  Claim C1. When the named index exists with a dimension other than 1536, the dimension
  of the Embedding Provider, \<^verbatim>\<open>_ensure_index_exists\<close> lists the indexes, describes the
  index, deletes it, waits, creates it again with dimension 1536 and the cosine metric,
  and waits again; afterwards the index holds no record and its reported dimension is
  1536.
\<close>

theorem ensure_index_exists_recreates_on_dimension_mismatch:
  assumes present: "map_of (world st) index_name = Some info"
    and mismatch: "dimension info \<noteq> 1536"
  shows "\<exists>st'. ensure_index_exists reference_pinecone st index_name = (st', Inr ())
           \<and> calls st' = calls st @ [ListIndexes, DescribeIndex index_name, DeleteIndex index_name, Sleep 5,
                                      CreateIndex index_name 1536 ''cosine'' ''aws'' ''us-east-1'', Sleep 10]
           \<and> world st' = filter (\<lambda>entry. fst entry \<noteq> index_name) (world st)
                           @ [(index_name, \<lparr>dimension = 1536, metric = ''cosine'', index_records = []\<rparr>)]
           \<and> snd (describe_index reference_pinecone (world st') index_name) = Inr 1536"
  using ensure_index_exists_mismatch [OF present mismatch] describe_recreated [of index_name "world st"]
  by simp

theorem ensure_index_exists_recreates_on_dimension_mismatch_witness:
  "snd (ensure_index_exists reference_pinecone (initial_state stale_index) ''hr-index'') = Inr ()
   \<and> world (fst (ensure_index_exists reference_pinecone (initial_state stale_index) ''hr-index''))
       = [(''hr-index'', \<lparr>dimension = 1536, metric = ''cosine'', index_records = []\<rparr>)]
   \<and> snd (describe_index reference_pinecone
            (world (fst (ensure_index_exists reference_pinecone (initial_state stale_index) ''hr-index'')))
            ''hr-index'') = Inr 1536"
proof -
  have present: "map_of (world (initial_state stale_index)) ''hr-index''
      = Some \<lparr>dimension = 768, metric = ''cosine'',
               index_records = [\<lparr>record_vector = [1], record_document = skills_chunk\<rparr>]\<rparr>"
    by (simp add: initial_state_def stale_index_def)
  have mismatch: "dimension \<lparr>dimension = 768, metric = ''cosine'',
               index_records = [\<lparr>record_vector = [1], record_document = skills_chunk\<rparr>]\<rparr> \<noteq> 1536"
    by simp
  show ?thesis
    using ensure_index_exists_recreates_on_dimension_mismatch [OF present mismatch]
    by (clarsimp simp: initial_state_def stale_index_def)
qed

text \<open>
  The dimension invariant in general: on the modelled index service
  \<^verbatim>\<open>_ensure_index_exists\<close> always succeeds, and the index then reports dimension 1536,
  whether it was absent, stale or already right.
\<close>

lemma ensure_index_exists_dimension:
  "\<exists>st'. ensure_index_exists reference_pinecone st index_name = (st', Inr ())
         \<and> snd (describe_index reference_pinecone (world st') index_name) = Inr 1536"
proof (cases "map_of (world st) index_name")
  case None
  then have absent: "index_name \<notin> fst ` set (world st)"
    by (simp add: map_of_eq_None_iff)
  then show ?thesis
    using None
    by (simp add: ensure_index_exists_def external_def reference_pinecone_def ref_list_indexes_def
        ref_describe_index_def ref_create_index_def record_call_def map_add_def)
next
  case (Some info)
  show ?thesis
  proof (cases "dimension info = 1536")
    case True
    have "index_name \<in> fst ` set (world st)"
      using map_of_Some_in_names [OF Some] by simp
    then show ?thesis
      using Some True
      by (simp add: ensure_index_exists_def external_def reference_pinecone_def ref_list_indexes_def
          ref_describe_index_def record_call_def)
  next
    case False
    show ?thesis
      using ensure_index_exists_mismatch [OF Some False] describe_recreated [of index_name "world st"]
      by simp
  qed
qed

section \<open>Properties of the modelled retriever\<close>

lemma set_insert_ranked: "set (insert_ranked p ps) = insert p (set ps)"
  by (induction ps) auto

lemma insert_ranked_sorted:
  "sorted_wrt (\<lambda>p q. snd q \<le> snd p) ps \<Longrightarrow> sorted_wrt (\<lambda>p q. snd q \<le> snd p) (insert_ranked p ps)"
  by (induction ps) (auto simp: set_insert_ranked)

lemma ranking_sorted: "sorted_wrt (\<lambda>p q. snd q \<le> snd p) (ranking ps)"
  by (induction ps) (simp_all add: insert_ranked_sorted)

lemma length_insert_ranked: "length (insert_ranked p ps) = Suc (length ps)"
  by (induction ps) auto

lemma length_ranking: "length (ranking ps) = length ps"
  by (induction ps) (simp_all add: length_insert_ranked)

text \<open>The ranking only reorders: nothing is filtered out, nothing is added.\<close>

lemma set_ranking: "set (ranking ps) = set ps"
  by (induction ps) (simp_all add: set_insert_ranked)

lemma index_query_sorted: "sorted_wrt (\<ge>) (map snd (index_query sim info v k))"
proof -
  have "sorted_wrt (\<lambda>p q. snd q \<le> snd p) (index_query sim info v k)"
    unfolding index_query_def by (rule sorted_wrt_take) (rule ranking_sorted)
  then show ?thesis by (simp add: sorted_wrt_map)
qed

lemma index_query_length: "length (index_query sim info v k) = min k (length (index_records info))"
  by (simp add: index_query_def length_ranking)

text \<open>
  Claim C7. The scores of the (chunk, score) pairs that a query of the Vector Index
  returns are non-increasing in the returned order, and there are at most \<open>k\<close> pairs.
  The retriever of \<^verbatim>\<open>process_chat_question\<close> asks for \<open>k = 5\<close> and returns the
  chunks of such a result in its order, so at most 5 of them, neither re-ranked nor
  filtered.
\<close>

theorem retriever_scores_are_non_increasing:
  "sorted_wrt (\<ge>) (map snd (index_query sim info v k))
   \<and> length (index_query sim info v k) \<le> k
   \<and> (similarity_search S = ref_similarity_search embedder sim
        \<and> retriever_invoke S st vs question = (st', Inr docs) \<longrightarrow>
        (\<exists>pairs. ref_similarity_search_with_score embedder sim (world st) vs question 5
                    = (world st, Inr pairs)
               \<and> docs = map fst pairs
               \<and> sorted_wrt (\<ge>) (map snd pairs)
               \<and> length pairs \<le> 5))"
proof (intro conjI impI)
  show "sorted_wrt (\<ge>) (map snd (index_query sim info v k))" by (rule index_query_sorted)
  show "length (index_query sim info v k) \<le> k" by (simp add: index_query_length)
next
  assume "similarity_search S = ref_similarity_search embedder sim
        \<and> retriever_invoke S st vs question = (st', Inr docs)"
  then have ref: "similarity_search S = ref_similarity_search embedder sim"
    and run: "retriever_invoke S st vs question = (st', Inr docs)" by simp_all
  from retriever_invoke_result [OF run] ref
  have r: "Inr docs = map_sum Raised id (snd (ref_similarity_search embedder sim (world st) vs question 5))"
    by simp
  then obtain pairs where pairs: "ref_similarity_search_with_score embedder sim (world st) vs question 5
                    = (world st, Inr pairs)" and docs: "docs = map fst pairs"
    by (auto simp: ref_similarity_search_def ref_similarity_search_with_score_def
        split: vectorstore.splits sum.splits option.splits prod.splits)
  from pairs obtain info' v' where "pairs = index_query sim info' v' 5"
    by (auto simp: ref_similarity_search_with_score_def
        split: vectorstore.splits sum.splits option.splits)
  then have "sorted_wrt (\<ge>) (map snd pairs)" "length pairs \<le> 5"
    by (simp_all add: index_query_sorted index_query_length)
  with pairs docs
  show "\<exists>pairs. ref_similarity_search_with_score embedder sim (world st) vs question 5
                    = (world st, Inr pairs)
               \<and> docs = map fst pairs
               \<and> sorted_wrt (\<ge>) (map snd pairs)
               \<and> length pairs \<le> 5" by blast
qed

theorem retriever_scores_are_non_increasing_witness:
  "map snd (index_query closeness six_records [0] 5) = [- 1, - 4, - 9, - 16, - 25]
   \<and> snd (retriever_invoke searchable (initial_state [(''hr-index'', six_records)]) hr_store question0)
       = Inr [chunk ''a'', chunk ''c'', chunk ''b'', chunk ''f'', chunk ''e'']"
proof -
  let ?st = "initial_state [(''hr-index'', six_records)]"
  let ?run = "retriever_invoke searchable ?st hr_store question0"
  have q: "index_query closeness six_records [0] 5
      = [(chunk ''a'', - 1), (chunk ''c'', - 4), (chunk ''b'', - 9), (chunk ''f'', - 16), (chunk ''e'', - 25)]"
    by (simp add: index_query_def six_records_def closeness_def)
  have s: "similarity_search searchable = ref_similarity_search origin_embedder closeness"
    by (simp add: searchable_def offline_def)
  have w: "ref_similarity_search_with_score origin_embedder closeness (world ?st) hr_store question0 5
      = (world ?st, Inr (index_query closeness six_records [0] 5))"
    by (simp add: ref_similarity_search_with_score_def hr_store_def origin_embedder_def initial_state_def)
  have ok: "?run = (fst ?run, Inr (map fst (index_query closeness six_records [0] 5)))"
    by (simp add: retriever_invoke_def external_def s ref_similarity_search_def w)
  have r: "snd ?run = Inr (map fst (index_query closeness six_records [0] 5))"
    by (subst ok) simp
  show ?thesis
    using retriever_scores_are_non_increasing
            [of closeness six_records "[0]" 5 searchable origin_embedder ?st hr_store question0
                "fst ?run" "map fst (index_query closeness six_records [0] 5)"] s ok
    by (simp add: q r)
qed

end
